theory Spec2Isabelle
  imports Main "HOL-Library.Char_ord" "HOL-Library.List_Lexorder" "HOL-Library.Multiset"
begin

section \<open>Values, option sets and errors\<close>

text \<open>
  An option value is a Go \<^verbatim>\<open>interface{}\<close>; the values that matter here are nil,
  booleans, integers and strings.  \<^verbatim>\<open>Options\<close> is \<^verbatim>\<open>map[string]interface{}\<close>; a nil
  map reads like the empty map and is modelled by it.
\<close>

datatype val = VNil | VBool bool | VInt int | VString string

type_synonym Options = "string \<rightharpoonup> val"

text \<open>
  Errors as values.  \<open>Errorf\<close> is an error made by \<^verbatim>\<open>fmt.Errorf\<close> or \<^verbatim>\<open>errors.New\<close>
  (a message only), \<open>Status\<close> one made by \<^verbatim>\<open>errors.Status(code, message)\<close>.

  Modelled from the spec: the sentinel errors \<^verbatim>\<open>kivik.ErrNotImplemented\<close>,
  \<^verbatim>\<open>kivik.ErrUnauthorized\<close> and \<^verbatim>\<open>kivik.ErrNotFound\<close> are declared in a file of
  package kivik that is not part of the sources read here; each is one fixed error value
  (the taxonomy's NotImplemented, Unauthorized and NotFound), so each is a constructor.
\<close>

datatype error =
    Errorf string
  | Status nat string
  | ErrNotImplemented
  | ErrUnauthorized
  | ErrNotFound

definition StatusBadRequest :: nat where
  "StatusBadRequest = 400"

definition StatusNotFound :: nat where
  "StatusNotFound = 404"

definition StatusPreconditionFailed :: nat where
  "StatusPreconditionFailed = 412"

text \<open>
  A call of a method through an interface value that is nil panics.  \<open>Panic\<close> is that
  outcome; \<open>Return r\<close> is a normal return of \<open>r\<close>.
\<close>

datatype 'r outcome = Panic | Return 'r

section \<open>The driver contract, as kivik.go uses it\<close>

text \<open>
  \<^verbatim>\<open>driver.Client\<close> is an interface: six required methods, and four optional
  interfaces (\<^verbatim>\<open>driver.UUIDer\<close>, \<^verbatim>\<open>driver.Cluster\<close>, \<^verbatim>\<open>driver.LogReader\<close>,
  \<^verbatim>\<open>driver.Authenticator\<close>) that a backend may implement as well.  A backend is a
  record of its methods; an optional interface it does not implement is \<open>None\<close>, so that
  the type assertion \<^verbatim>\<open>c.driverClient.(driver.UUIDer)\<close> succeeds exactly when the field
  is \<open>Some\<close>.  The backend's own state \<open>'s\<close> is passed through every call.  The
  context argument (cancellation) is not modelled.  A Go result \<^verbatim>\<open>(T, error)\<close> is a
  pair whose components may be nil independently.
\<close>

record ('s, 'db, 'a, 'i) driver_Client =
  drv_AllDBsContext :: "Options \<Rightarrow> 's \<Rightarrow> (string list option \<times> error option) \<times> 's"
  drv_DBExistsContext :: "string \<Rightarrow> Options \<Rightarrow> 's \<Rightarrow> (bool \<times> error option) \<times> 's"
  drv_CreateDBContext :: "string \<Rightarrow> Options \<Rightarrow> 's \<Rightarrow> error option \<times> 's"
  drv_DestroyDBContext :: "string \<Rightarrow> Options \<Rightarrow> 's \<Rightarrow> error option \<times> 's"
  drv_ServerInfoContext :: "Options \<Rightarrow> 's \<Rightarrow> ('i option \<times> error option) \<times> 's"
  drv_DBContext :: "string \<Rightarrow> Options \<Rightarrow> 's \<Rightarrow> ('db option \<times> error option) \<times> 's"
  drv_UUIDer :: "(int \<Rightarrow> 's \<Rightarrow> (string list option \<times> error option) \<times> 's) option"
  drv_Cluster :: "('s \<Rightarrow> (string list option \<times> string list option \<times> error option) \<times> 's) option"
  drv_LogReader :: "(int \<Rightarrow> int \<Rightarrow> 's \<Rightarrow> (string option \<times> error option) \<times> 's) option"
  drv_Authenticator :: "('a \<Rightarrow> 's \<Rightarrow> error option \<times> 's) option"

record ('s, 'db, 'a, 'i) driver_Driver =
  NewClientContext ::
    "string \<Rightarrow> 's \<Rightarrow> (('s, 'db, 'a, 'i) driver_Client option \<times> error option) \<times> 's"

section \<open>The client facade (kivik.go)\<close>

record ('s, 'db, 'a, 'i) Client =
  dsn :: string
  driverName :: string
  driverClient :: "('s, 'db, 'a, 'i) driver_Client option"

record 'db DB =
  driverDB :: "'db option"

text \<open>
  Modelled from the spec: \<^verbatim>\<open>mergo.MergeWithOverwrite\<close> belongs to the library
  \<^verbatim>\<open>github.com/imdario/mergo\<close>, whose code is not part of the sources.  The spec says
  of the merge that later sets override earlier keys on conflict (last write wins) and
  names no failure, so a merge keeps the keys of the destination, lets the source set
  override the keys it has, and returns no error.  The result is the new value of the
  destination (the Go call updates it through the pointer) and the error.
\<close>

definition MergeWithOverwrite :: "Options \<Rightarrow> Options \<Rightarrow> Options \<times> error option" where
  "MergeWithOverwrite dst src = (dst ++ src, None)"

text \<open>
  The loop of \<^verbatim>\<open>mergeOptions\<close>, with the variable \<^verbatim>\<open>options\<close> as accumulator; the
  first failing merge returns nil and the error.
\<close>

fun mergeOptions_loop :: "Options \<Rightarrow> Options list \<Rightarrow> Options \<times> error option" where
  "mergeOptions_loop options [] = (options, None)"
| "mergeOptions_loop options (opts # otherOpts) =
     (case MergeWithOverwrite options opts of
        (_, Some err) \<Rightarrow> (Map.empty, Some err)
      | (options', None) \<Rightarrow> mergeOptions_loop options' otherOpts)"

definition mergeOptions :: "Options list \<Rightarrow> Options \<times> error option" where
  "mergeOptions otherOpts = mergeOptions_loop Map.empty otherOpts"

text \<open>
  \<^verbatim>\<open>NewContext\<close>.  The registry \<^verbatim>\<open>drivers\<close> is a process-wide map, here a parameter.
  \<open>quote\<close> stands for the \<^verbatim>\<open>%q\<close> verb of Go's \<^verbatim>\<open>fmt\<close> package (the name as a
  double-quoted Go string literal), which is library code and a parameter too.
\<close>

definition NewContext ::
  "(string \<Rightarrow> string) \<Rightarrow> (string \<rightharpoonup> ('s, 'db, 'a, 'i) driver_Driver) \<Rightarrow> string \<Rightarrow> string \<Rightarrow> 's
     \<Rightarrow> (('s, 'db, 'a, 'i) Client option \<times> error option) \<times> 's" where
  "NewContext quote drivers name dataSourceName s =
     (case drivers name of
        None \<Rightarrow>
          ((None, Some (Errorf (''kivik: unknown driver '' @ quote name @ '' (forgotten import?)''))), s)
      | Some driveri \<Rightarrow>
          (case NewClientContext driveri dataSourceName s of
             ((_, Some err), s') \<Rightarrow> ((None, Some err), s')
           | ((client, None), s') \<Rightarrow>
               ((Some \<lparr>dsn = dataSourceName, driverName = name, driverClient = client\<rparr>, None), s')))"

text \<open>\<^verbatim>\<open>New\<close> is \<^verbatim>\<open>NewContext\<close> with a background context.\<close>

definition New ::
  "(string \<Rightarrow> string) \<Rightarrow> (string \<rightharpoonup> ('s, 'db, 'a, 'i) driver_Driver) \<Rightarrow> string \<Rightarrow> string \<Rightarrow> 's
     \<Rightarrow> (('s, 'db, 'a, 'i) Client option \<times> error option) \<times> 's" where
  "New quote drivers name dataSourceName s = NewContext quote drivers name dataSourceName s"

text \<open>
  A call \<^verbatim>\<open>c.driverClient.M(...)\<close> of a required method: it panics when the interface
  value is nil, and otherwise runs the backend's method on the backend's state.
\<close>

definition invoke ::
  "'d option \<Rightarrow> ('d \<Rightarrow> 's \<Rightarrow> 'r \<times> 's) \<Rightarrow> 's \<Rightarrow> 'r outcome \<times> 's" where
  "invoke dc m s =
     (case dc of
        None \<Rightarrow> (Panic, s)
      | Some d \<Rightarrow> (case m d s of (r, s') \<Rightarrow> (Return r, s')))"

text \<open>
  A type assertion \<^verbatim>\<open>c.driverClient.(driver.X)\<close>: it fails (without a panic) on a nil
  interface value and on a backend that does not implement \<^verbatim>\<open>X\<close>.
\<close>

definition assert_iface :: "'d option \<Rightarrow> ('d \<Rightarrow> 'm option) \<Rightarrow> 'm option" where
  "assert_iface dc sel = (case dc of None \<Rightarrow> None | Some d \<Rightarrow> sel d)"

definition ServerInfoContext ::
  "('s, 'db, 'a, 'i) Client \<Rightarrow> Options list \<Rightarrow> 's \<Rightarrow> ('i option \<times> error option) outcome \<times> 's" where
  "ServerInfoContext c options s =
     (case mergeOptions options of
        (_, Some err) \<Rightarrow> (Return (None, Some err), s)
      | (opts, None) \<Rightarrow> invoke (driverClient c) (\<lambda>d. drv_ServerInfoContext d opts) s)"

definition DBContext ::
  "('s, 'db, 'a, 'i) Client \<Rightarrow> string \<Rightarrow> Options list \<Rightarrow> 's
     \<Rightarrow> ('db DB option \<times> error option) outcome \<times> 's" where
  "DBContext c dbName options s =
     (case mergeOptions options of
        (_, Some err) \<Rightarrow> (Return (None, Some err), s)
      | (opts, None) \<Rightarrow>
          (case invoke (driverClient c) (\<lambda>d. drv_DBContext d dbName opts) s of
             (Panic, s') \<Rightarrow> (Panic, s')
           | (Return (db, err), s') \<Rightarrow> (Return (Some \<lparr>driverDB = db\<rparr>, err), s')))"

definition AllDBsContext ::
  "('s, 'db, 'a, 'i) Client \<Rightarrow> Options list \<Rightarrow> 's
     \<Rightarrow> (string list option \<times> error option) outcome \<times> 's" where
  "AllDBsContext c options s =
     (case mergeOptions options of
        (_, Some err) \<Rightarrow> (Return (None, Some err), s)
      | (opts, None) \<Rightarrow> invoke (driverClient c) (\<lambda>d. drv_AllDBsContext d opts) s)"

text \<open>
  \<^verbatim>\<open>count\<close> is a Go \<^verbatim>\<open>int\<close>; the facade only compares it with 0, so no arithmetic
  can overflow and an integer models it.
\<close>

definition UUIDsContext ::
  "('s, 'db, 'a, 'i) Client \<Rightarrow> int \<Rightarrow> 's \<Rightarrow> (string list option \<times> error option) outcome \<times> 's" where
  "UUIDsContext c count' s =
     (if count' < 0 then
        (Return (None, Some (Status StatusBadRequest ''count must be a positive integer'')), s)
      else
        (case assert_iface (driverClient c) drv_UUIDer of
           Some uuider \<Rightarrow> (case uuider count' s of (r, s') \<Rightarrow> (Return r, s'))
         | None \<Rightarrow> (Return (None, Some ErrNotImplemented), s)))"

definition MembershipContext ::
  "('s, 'db, 'a, 'i) Client \<Rightarrow> 's
     \<Rightarrow> (string list option \<times> string list option \<times> error option) outcome \<times> 's" where
  "MembershipContext c s =
     (case assert_iface (driverClient c) drv_Cluster of
        Some cluster \<Rightarrow> (case cluster s of (r, s') \<Rightarrow> (Return r, s'))
      | None \<Rightarrow> (Return (None, None, Some ErrNotImplemented), s))"

definition LogContext ::
  "('s, 'db, 'a, 'i) Client \<Rightarrow> int \<Rightarrow> int \<Rightarrow> 's \<Rightarrow> (string option \<times> error option) outcome \<times> 's" where
  "LogContext c len offset s =
     (case assert_iface (driverClient c) drv_LogReader of
        Some logger \<Rightarrow> (case logger len offset s of (r, s') \<Rightarrow> (Return r, s'))
      | None \<Rightarrow> (Return (None, Some ErrNotImplemented), s))"

definition DBExistsContext ::
  "('s, 'db, 'a, 'i) Client \<Rightarrow> string \<Rightarrow> Options list \<Rightarrow> 's \<Rightarrow> (bool \<times> error option) outcome \<times> 's" where
  "DBExistsContext c dbName options s =
     (case mergeOptions options of
        (_, Some err) \<Rightarrow> (Return (False, Some err), s)
      | (opts, None) \<Rightarrow> invoke (driverClient c) (\<lambda>d. drv_DBExistsContext d dbName opts) s)"

text \<open>
  \<^verbatim>\<open>validDBName\<close> is the regular expression \<^verbatim>\<open>^[a-z][a-z0-9_$()+/-]*$\<close>;
  \<^verbatim>\<open>MatchString\<close> holds when the whole name is one lower-case letter followed by any
  number of characters of the class (in Go, without the multi-line flag, \<^verbatim>\<open>$\<close> matches
  at the end of the text only).
\<close>

definition lower_letter :: "char \<Rightarrow> bool" where
  "lower_letter ch = (CHR ''a'' \<le> ch \<and> ch \<le> CHR ''z'')"

definition dbname_char :: "char \<Rightarrow> bool" where
  "dbname_char ch =
     (lower_letter ch \<or> (CHR ''0'' \<le> ch \<and> ch \<le> CHR ''9'') \<or> ch \<in> set ''_$()+/-'')"

fun validDBName :: "string \<Rightarrow> bool" where
  "validDBName [] = False"
| "validDBName (ch # rest) = (lower_letter ch \<and> list_all dbname_char rest)"

definition CreateDBContext ::
  "('s, 'db, 'a, 'i) Client \<Rightarrow> string \<Rightarrow> Options list \<Rightarrow> 's \<Rightarrow> error option outcome \<times> 's" where
  "CreateDBContext c dbName options s =
     (case mergeOptions options of
        (_, Some err) \<Rightarrow> (Return (Some err), s)
      | (opts, None) \<Rightarrow>
          if \<not> validDBName dbName then
            (Return (Some (Status StatusBadRequest ''invalid database name'')), s)
          else invoke (driverClient c) (\<lambda>d. drv_CreateDBContext d dbName opts) s)"

definition DestroyDBContext ::
  "('s, 'db, 'a, 'i) Client \<Rightarrow> string \<Rightarrow> Options list \<Rightarrow> 's \<Rightarrow> error option outcome \<times> 's" where
  "DestroyDBContext c dbName options s =
     (case mergeOptions options of
        (_, Some err) \<Rightarrow> (Return (Some err), s)
      | (opts, None) \<Rightarrow> invoke (driverClient c) (\<lambda>d. drv_DestroyDBContext d dbName opts) s)"

definition AuthenticateContext ::
  "('s, 'db, 'a, 'i) Client \<Rightarrow> 'a \<Rightarrow> 's \<Rightarrow> error option outcome \<times> 's" where
  "AuthenticateContext c a s =
     (case assert_iface (driverClient c) drv_Authenticator of
        Some auth \<Rightarrow> (case auth a s of (r, s') \<Rightarrow> (Return r, s'))
      | None \<Rightarrow> (Return (Some ErrNotImplemented), s))"

section \<open>The PouchDB driver (driver/pouchdb/pouchdb.go)\<close>

text \<open>
  Modelled from the spec: \<^verbatim>\<open>errors.StatusCode\<close> belongs to package errors of this
  repository, which is not among the sources.  It reads the status of an error: the code
  of a status error, and by the spec's error-to-status mapping 404 for NotFound, 401 for
  Unauthorized, 501 for NotImplemented and 500 for anything unclassified.
\<close>

fun StatusCode :: "error \<Rightarrow> nat" where
  "StatusCode (Status code _) = code"
| "StatusCode ErrNotFound = 404"
| "StatusCode ErrUnauthorized = 401"
| "StatusCode ErrNotImplemented = 501"
| "StatusCode (Errorf _) = 500"

text \<open>
  The parsed data source name, \<^verbatim>\<open>*url.URL\<close> with its user part removed.  Rendering a
  URL (\<^verbatim>\<open>String()\<close>) is Go's \<^verbatim>\<open>net/url\<close>, a parameter \<open>url_String\<close> of the functions
  that need it.
\<close>

record url =
  Scheme :: string
  Host :: string
  Path :: string

text \<open>
  The binding to the PouchDB library (package bindings, not among the sources):
  \<open>pouch_Info name opts\<close> stands for \<^verbatim>\<open>c.pouch.New(name, opts).Info(ctx)\<close> with the
  info dropped, as both callers drop it; it acts on the state \<open>'s\<close> of the PouchDB
  environment.
\<close>

record 's PouchDB =
  pouch_Info :: "string \<Rightarrow> Options \<Rightarrow> 's \<Rightarrow> error option \<times> 's"

text \<open>
  The driver's client.  \<^verbatim>\<open>opts\<close> is a \<^verbatim>\<open>map[string]Options\<close>; the list holds its
  entries in the order the \<^verbatim>\<open>range\<close> loop of \<^verbatim>\<open>options\<close> visits them.
\<close>

record 's pouch_client =
  pouch_dsn :: "url option"
  pouch_opts :: "(string \<times> Options) list"
  pouch :: "'s PouchDB"

definition dbURL :: "(url \<Rightarrow> string) \<Rightarrow> 's pouch_client \<Rightarrow> string \<Rightarrow> string" where
  "dbURL url_String c db =
     (case pouch_dsn c of
        None \<Rightarrow> db
      | Some myURL \<Rightarrow>
          url_String (myURL\<lparr>Path := Path myURL @ dropWhile (\<lambda>ch. ch = CHR ''/'') db\<rparr>))"

text \<open>
  \<^verbatim>\<open>client.options\<close>: the client's default sets first, then the sets of the call, each
  merged into \<^verbatim>\<open>o\<close> by the loop that \<^verbatim>\<open>mergeOptions\<close> has as well.
\<close>

definition pouch_options :: "'s pouch_client \<Rightarrow> Options list \<Rightarrow> Options \<times> error option" where
  "pouch_options c options =
     (case mergeOptions_loop Map.empty (map snd (pouch_opts c)) of
        (_, Some err) \<Rightarrow> (Map.empty, Some err)
      | (o1, None) \<Rightarrow> mergeOptions_loop o1 options)"

definition isRemote :: "'s pouch_client \<Rightarrow> bool" where
  "isRemote c = (pouch_dsn c \<noteq> None)"

definition pouchdb_DBExistsContext ::
  "(url \<Rightarrow> string) \<Rightarrow> 's pouch_client \<Rightarrow> string \<Rightarrow> Options \<Rightarrow> 's \<Rightarrow> (bool \<times> error option) \<times> 's" where
  "pouchdb_DBExistsContext url_String c dbName options s =
     (case pouch_options c [options, [''skip_setup'' \<mapsto> VBool True]] of
        (_, Some err) \<Rightarrow> ((False, Some err), s)
      | (opts, None) \<Rightarrow>
          (case pouch_Info (pouch c) (dbURL url_String c dbName) opts s of
             (None, s') \<Rightarrow> ((True, None), s')
           | (Some err, s') \<Rightarrow>
               if StatusCode err = StatusNotFound then ((False, None), s')
               else ((False, Some err), s')))"

text \<open>The last four statements of \<^verbatim>\<open>CreateDBContext\<close>, after the existence check.\<close>

definition pouchdb_create ::
  "(url \<Rightarrow> string) \<Rightarrow> 's pouch_client \<Rightarrow> string \<Rightarrow> Options \<Rightarrow> 's \<Rightarrow> error option \<times> 's" where
  "pouchdb_create url_String c dbName options s =
     (case pouch_options c [options] of
        (_, Some err) \<Rightarrow> (Some err, s)
      | (opts, None) \<Rightarrow> pouch_Info (pouch c) (dbURL url_String c dbName) opts s)"

text \<open>
  \<^verbatim>\<open>CreateDBContext\<close>: only a remote client asks whether the database exists, and the
  error of that question is dropped (\<^verbatim>\<open>exists, _ :=\<close>).
\<close>

definition pouchdb_CreateDBContext ::
  "(url \<Rightarrow> string) \<Rightarrow> 's pouch_client \<Rightarrow> string \<Rightarrow> Options \<Rightarrow> 's \<Rightarrow> error option \<times> 's" where
  "pouchdb_CreateDBContext url_String c dbName options s =
     (if isRemote c then
        (case pouchdb_DBExistsContext url_String c dbName options s of
           ((True, _), s') \<Rightarrow> (Some (Status StatusPreconditionFailed ''database exists''), s')
         | ((False, _), s') \<Rightarrow> pouchdb_create url_String c dbName options s')
      else pouchdb_create url_String c dbName options s)"

section \<open>HTTP Basic authentication (auth/basic/basic.go)\<close>

text \<open>
  Of the request, \<^verbatim>\<open>Authenticate\<close> reads the credential header and the service the
  server attached.  \<open>Authorization\<close> is what \<^verbatim>\<open>r.Header.Get("Authorization")\<close>
  returns: the header's value, empty when the request carries no such header.
  \<^verbatim>\<open>r.BasicAuth()\<close> is Go's \<^verbatim>\<open>net/http\<close>: no credentials when that value is empty, and
  otherwise what the library's decoder \<open>parseBasicAuth\<close> (the scheme prefix, base64, the
  colon) makes of it; the decoder is a parameter.  The pair of user name and password is
  \<open>Some\<close> exactly when the Go call returns \<^verbatim>\<open>ok\<close>.
\<close>

record request =
  Authorization :: string

definition BasicAuth ::
  "(string \<Rightarrow> (string \<times> string) option) \<Rightarrow> request \<Rightarrow> (string \<times> string) option" where
  "BasicAuth parseBasicAuth r =
     (if Authorization r = [] then None else parseBasicAuth (Authorization r))"

text \<open>
  The user store that \<^verbatim>\<open>serve.GetService(r)\<close> returns; \<open>'u\<close> is
  \<^verbatim>\<open>authdb.UserContext\<close>.
\<close>

record 'u user_store =
  Validate :: "string \<Rightarrow> string \<Rightarrow> 'u option \<times> error option"

definition Authenticate ::
  "(string \<Rightarrow> (string \<times> string) option) \<Rightarrow> (request \<Rightarrow> 'u user_store) \<Rightarrow> request
     \<Rightarrow> 'u option \<times> error option" where
  "Authenticate parseBasicAuth GetService r =
     (let store = GetService r in
      case BasicAuth parseBasicAuth r of
        None \<Rightarrow> (None, Some ErrUnauthorized)
      | Some (username, password) \<Rightarrow> Validate store username password)"

section \<open>The storage engine's revision trees\<close>

text \<open>
  Modelled from the spec: the in-memory storage engine (package driver/memory) is not
  among the sources; only one of its tests is.  What follows is the spec's data model
  and its winning-revision algorithm.  A revision id is a pair of a generation number
  and a content hash, serialized as \<^verbatim>\<open><generation>-<hash>\<close> with the generation in
  decimal.
\<close>

record rev =
  generation :: nat
  hash :: string

fun decimal :: "nat \<Rightarrow> string" where
  "decimal n = (if n < 10 then [] else decimal (n div 10)) @ [''0123456789'' ! (n mod 10)]"

declare decimal.simps [simp del]

definition rev_string :: "rev \<Rightarrow> string" where
  "rev_string r = decimal (generation r) @ ''-'' @ hash r"

text \<open>
  Modelled from the spec: a node of a revision tree is a triple of a revision id, the
  parent's revision id or none, and a body or a tombstone (\<open>None\<close>).  A document's tree
  is the list of its nodes in the order they were added.
\<close>

record 'b node =
  node_rev :: rev
  node_parent :: "rev option"
  node_body :: "'b option"

type_synonym 'b tree = "'b node list"

text \<open>
  Modelled from the spec: a leaf is a node that is no node's parent.  Among the leaf
  revisions the winner has the greatest generation; ties at that generation go to the
  revision id that is greatest as a string.  \<open>wins a b\<close> says that \<open>a\<close> beats \<open>b\<close>.
\<close>

definition is_leaf :: "'b tree \<Rightarrow> 'b node \<Rightarrow> bool" where
  "is_leaf t n = list_all (\<lambda>m. node_parent m \<noteq> Some (node_rev n)) t"

definition leaves :: "'b tree \<Rightarrow> rev list" where
  "leaves t = map node_rev (filter (is_leaf t) t)"

definition wins :: "rev \<Rightarrow> rev \<Rightarrow> bool" where
  "wins a b =
     (generation b < generation a \<or>
      (generation a = generation b \<and> rev_string b < rev_string a))"

definition winner :: "'b tree \<Rightarrow> rev option" where
  "winner t =
     (case leaves t of
        [] \<Rightarrow> None
      | r # rs \<Rightarrow> Some (foldl (\<lambda>w x. if wins x w then x else w) r rs))"

text \<open>
  Modelled from the spec: an edit is a parent revision (or none) and a body (or a
  tombstone).  Its revision id is content-addressed: the generation is one more than the
  parent's (1 without a parent), and the hash is a function \<open>h\<close> of the parent and the
  body, so that the same parent and body always give the same revision id.  Applying an
  edit adds its node to the tree unless the tree has that node already.
\<close>

type_synonym 'b edit = "rev option \<times> 'b option"

definition new_rev :: "(rev option \<Rightarrow> 'b option \<Rightarrow> string) \<Rightarrow> 'b edit \<Rightarrow> rev" where
  "new_rev h e =
     \<lparr>generation = (case fst e of None \<Rightarrow> 1 | Some p \<Rightarrow> generation p + 1),
      hash = h (fst e) (snd e)\<rparr>"

definition edit_node :: "(rev option \<Rightarrow> 'b option \<Rightarrow> string) \<Rightarrow> 'b edit \<Rightarrow> 'b node" where
  "edit_node h e = \<lparr>node_rev = new_rev h e, node_parent = fst e, node_body = snd e\<rparr>"

definition apply_edit :: "(rev option \<Rightarrow> 'b option \<Rightarrow> string) \<Rightarrow> 'b tree \<Rightarrow> 'b edit \<Rightarrow> 'b tree" where
  "apply_edit h t e = (if edit_node h e \<in> set t then t else t @ [edit_node h e])"

definition apply_edits ::
  "(rev option \<Rightarrow> 'b option \<Rightarrow> string) \<Rightarrow> 'b tree \<Rightarrow> 'b edit list \<Rightarrow> 'b tree" where
  "apply_edits h t es = foldl (apply_edit h) t es"

section \<open>The storage engine's writes\<close>

text \<open>
  Modelled from the spec: a database holds a map from document id to revision tree, a
  sequence counter, the index of document ids in ascending order, and the change log.
  A change log entry is a sequence number, a document id, the winning revision id and
  the deleted flag.
\<close>

datatype engine_error = NotFound | Conflict | PreconditionFailed

record change =
  change_seq :: nat
  change_id :: string
  change_rev :: rev
  change_deleted :: bool

record 'b database =
  docs :: "string \<rightharpoonup> 'b tree"
  update_seq :: nat
  doc_index :: "string list"
  change_log :: "change list"

text \<open>
  Modelled from the spec: the deleted flag of a revision of a tree is set when its node
  is a tombstone.
\<close>

definition is_deleted :: "'b tree \<Rightarrow> rev \<Rightarrow> bool" where
  "is_deleted t r = list_ex (\<lambda>n. node_rev n = r \<and> node_body n = None) t"

text \<open>
  Modelled from the spec: the success path of a write.  It computes the new revision id,
  adds the node as a child of the expected parent, recomputes the winner, and appends one
  change log entry under the next sequence number.
\<close>

definition commit ::
  "(rev option \<Rightarrow> 'b option \<Rightarrow> string) \<Rightarrow> 'b database \<Rightarrow> string \<Rightarrow> 'b tree \<Rightarrow> 'b edit
     \<Rightarrow> (engine_error + rev) \<times> 'b database" where
  "commit h db docID t e =
     (let t' = apply_edit h t e;
          w = (case winner t' of None \<Rightarrow> new_rev h e | Some r \<Rightarrow> r);
          seq = update_seq db + 1
      in (Inr (new_rev h e),
          db\<lparr>docs := (docs db)(docID \<mapsto> t'),
             update_seq := seq,
             doc_index := (if docID \<in> set (doc_index db) then doc_index db
                           else insort docID (doc_index db)),
             change_log := change_log db @
               [\<lparr>change_seq = seq, change_id = docID, change_rev = w,
                 change_deleted = is_deleted t' w\<rparr>]\<rparr>))"

text \<open>
  Modelled from the spec: the conflict rule of \<^verbatim>\<open>Put\<close> and \<^verbatim>\<open>Delete\<close>.  For a document
  that does not exist yet the expected parent revision must be empty; otherwise it must
  equal the current winning revision, serialized; else the write fails with \<open>Conflict\<close>.
\<close>

definition write_doc ::
  "(rev option \<Rightarrow> 'b option \<Rightarrow> string) \<Rightarrow> 'b database \<Rightarrow> string \<Rightarrow> 'b option \<Rightarrow> string
     \<Rightarrow> (engine_error + rev) \<times> 'b database" where
  "write_doc h db docID body expectedParentRevision =
     (case docs db docID of
        None \<Rightarrow>
          if expectedParentRevision = [] then commit h db docID [] (None, body)
          else (Inl Conflict, db)
      | Some t \<Rightarrow>
          (case winner t of
             None \<Rightarrow> (Inl Conflict, db)
           | Some w \<Rightarrow>
               if expectedParentRevision = rev_string w then commit h db docID t (Some w, body)
               else (Inl Conflict, db)))"

definition Put ::
  "(rev option \<Rightarrow> 'b option \<Rightarrow> string) \<Rightarrow> 'b database \<Rightarrow> string \<Rightarrow> 'b \<Rightarrow> string
     \<Rightarrow> (engine_error + rev) \<times> 'b database" where
  "Put h db docID body expectedParentRevision =
     write_doc h db docID (Some body) expectedParentRevision"

definition Delete ::
  "(rev option \<Rightarrow> 'b option \<Rightarrow> string) \<Rightarrow> 'b database \<Rightarrow> string \<Rightarrow> string
     \<Rightarrow> (engine_error + rev) \<times> 'b database" where
  "Delete h db docID expectedRevision = write_doc h db docID None expectedRevision"

section \<open>The spec's reading of the option merge\<close>

text \<open>
  The spec's words for the effective option set: sets are merged left to right and a
  later set overrides the keys of an earlier one.  So the value of a key is the one it
  has in the last set that holds the key, and a key that no set holds is absent.
\<close>

definition last_write_wins :: "Options list \<Rightarrow> Options" where
  "last_write_wins sets k =
     (case filter (\<lambda>m. m k \<noteq> None) sets of
        [] \<Rightarrow> None
      | m # ms \<Rightarrow> last (m # ms) k)"

section \<open>Backends and inputs for the examples\<close>

text \<open>
  A small backend without optional capabilities.  Its state is the list of database
  names; the server info it reports is the \<^verbatim>\<open>vendor\<close> option it was called with.
\<close>

definition stub_backend :: "(string list, string, unit, string) driver_Client" where
  "stub_backend =
     \<lparr>drv_AllDBsContext = (\<lambda>opts s. ((Some s, None), s)),
      drv_DBExistsContext = (\<lambda>name opts s. ((name \<in> set s, None), s)),
      drv_CreateDBContext = (\<lambda>name opts s.
         if name \<in> set s then (Some (Status StatusPreconditionFailed ''database exists''), s)
         else (None, s @ [name])),
      drv_DestroyDBContext = (\<lambda>name opts s.
         if name \<in> set s then (None, removeAll name s) else (Some ErrNotFound, s)),
      drv_ServerInfoContext = (\<lambda>opts s.
         ((case opts ''vendor'' of Some (VString v) \<Rightarrow> Some v | _ \<Rightarrow> None, None), s)),
      drv_DBContext = (\<lambda>name opts s.
         if name \<in> set s then ((Some name, None), s) else ((None, Some ErrNotFound), s)),
      drv_UUIDer = None,
      drv_Cluster = None,
      drv_LogReader = None,
      drv_Authenticator = None\<rparr>"

definition stub_client :: "(string list, string, unit, string) Client" where
  "stub_client = \<lparr>dsn = [], driverName = ''stub'', driverClient = Some stub_backend\<rparr>"

text \<open>The same backend with a UUID generator that returns \<open>n\<close> copies of one id.\<close>

definition stub_uuider :: "int \<Rightarrow> string list \<Rightarrow> (string list option \<times> error option) \<times> string list" where
  "stub_uuider n s = ((Some (replicate (nat n) ''0f''), None), s)"

definition uuid_client :: "(string list, string, unit, string) Client" where
  "uuid_client =
     \<lparr>dsn = [], driverName = ''stub'',
      driverClient = Some (stub_backend\<lparr>drv_UUIDer := Some stub_uuider\<rparr>)\<rparr>"

text \<open>
  The \<^verbatim>\<open>%q\<close> verb on a name of printable ASCII characters without a double quote or a
  backslash: the name between double quotes.
\<close>

definition plain_quote :: "string \<Rightarrow> string" where
  "plain_quote name = CHR 0x22 # name @ [CHR 0x22]"

definition stub_drivers :: "string \<rightharpoonup> (string list, string, unit, string) driver_Driver" where
  "stub_drivers =
     [''stub'' \<mapsto> \<lparr>NewClientContext = (\<lambda>name s. ((Some stub_backend, None), s))\<rparr>]"

text \<open>
  A PouchDB environment.  Its state is the list of the names of the databases that
  exist.  Asking for a database's info opens the database, which creates it when it
  does not exist; with the option \<^verbatim>\<open>skip_setup\<close> a database that does not exist is
  reported with status 404 instead.
\<close>

definition stub_pouch :: "string list PouchDB" where
  "stub_pouch =
     \<lparr>pouch_Info = (\<lambda>name opts s.
        if name \<in> set s then (None, s)
        else if opts ''skip_setup'' = Some (VBool True) then (Some (Status 404 ''missing''), s)
        else (None, s @ [name]))\<rparr>"

definition local_client :: "string list pouch_client" where
  "local_client = \<lparr>pouch_dsn = None, pouch_opts = [], pouch = stub_pouch\<rparr>"

definition remote_client :: "string list pouch_client" where
  "remote_client =
     \<lparr>pouch_dsn = Some \<lparr>Scheme = ''http'', Host = ''db.example'', Path = ''/''\<rparr>,
      pouch_opts = [], pouch = stub_pouch\<rparr>"

definition plain_url_String :: "url \<Rightarrow> string" where
  "plain_url_String u = Scheme u @ ''://'' @ Host u @ Path u"

text \<open>
  A credential decoder for credentials written as \<^verbatim>\<open>user:password\<close>, and a user store
  with one user.
\<close>

definition stub_parse :: "string \<Rightarrow> (string \<times> string) option" where
  "stub_parse a =
     (if CHR '':'' \<in> set a then
        Some (takeWhile (\<lambda>ch. ch \<noteq> CHR '':'') a, tl (dropWhile (\<lambda>ch. ch \<noteq> CHR '':'') a))
      else None)"

definition stub_store :: "string user_store" where
  "stub_store =
     \<lparr>Validate = (\<lambda>username password.
        if username = ''admin'' \<and> password = ''secret'' then (Some username, None)
        else (None, Some ErrUnauthorized))\<rparr>"

text \<open>
  A content hash for documents whose bodies are strings: the parent's hash followed by
  the body (\<^verbatim>\<open>x\<close> for a tombstone).  An empty database, and the database after the
  first write of a document \<^verbatim>\<open>doc1\<close>.
\<close>

definition demo_hash :: "rev option \<Rightarrow> string option \<Rightarrow> string" where
  "demo_hash p b =
     (case p of None \<Rightarrow> [] | Some r \<Rightarrow> hash r) @ (case b of None \<Rightarrow> ''x'' | Some body \<Rightarrow> body)"

definition empty_db :: "string database" where
  "empty_db = \<lparr>docs = Map.empty, update_seq = 0, doc_index = [], change_log = []\<rparr>"

definition demo_db :: "string database" where
  "demo_db = snd (Put demo_hash empty_db ''doc1'' ''a1'' [])"

section \<open>Properties of the client facade\<close>

lemma mergeOptions_loop_foldl:
  "mergeOptions_loop acc sets = (foldl (++) acc sets, None)"
  by (induction sets arbitrary: acc) (simp_all add: MergeWithOverwrite_def)

lemma foldl_map_add_lookup:
  "foldl (++) acc sets k =
     (case last_write_wins sets k of None \<Rightarrow> acc k | Some v \<Rightarrow> Some v)"
proof (induction sets rule: rev_induct)
  case Nil
  show ?case by (simp add: last_write_wins_def)
next
  case (snoc m sets)
  show ?case
  proof (cases "m k")
    case None
    then have "last_write_wins (sets @ [m]) k = last_write_wins sets k"
      by (simp add: last_write_wins_def)
    with None snoc show ?thesis by (simp add: map_add_def)
  next
    case (Some v)
    have "(case xs @ [m] of [] \<Rightarrow> None | y # ys \<Rightarrow> last (y # ys) k) = m k" for xs
      by (cases xs) simp_all
    with Some have "last_write_wins (sets @ [m]) k = Some v"
      by (simp add: last_write_wins_def)
    with Some show ?thesis by (simp add: map_add_def)
  qed
qed

lemma mergeOptions_eq: "mergeOptions sets = (last_write_wins sets, None)"
proof -
  have "foldl (++) Map.empty sets = last_write_wins sets"
  proof
    fix k
    show "foldl (++) Map.empty sets k = last_write_wins sets k"
      by (simp add: foldl_map_add_lookup split: option.splits)
  qed
  then show ?thesis by (simp add: mergeOptions_def mergeOptions_loop_foldl)
qed

text \<open>
  Claim C3.  The option sets passed to a facade operation are merged left to right, a
  key of a later set overriding the same key of an earlier set: the merge never fails
  and its result is \<open>last_write_wins\<close> of the sets.  Each facade operation that takes
  option sets calls its backend method once, with exactly this merged set
  (\<^verbatim>\<open>CreateDBContext\<close> does so for a valid database name), and returns what the method
  returns, \<^verbatim>\<open>DBContext\<close> wrapping the handle.
\<close>

theorem mergeOptions_last_write_wins:
  "mergeOptions sets = (last_write_wins sets, None) \<and>
   (driverClient c = Some d \<longrightarrow>
      ServerInfoContext c sets s =
        (case drv_ServerInfoContext d (last_write_wins sets) s of (r, s') \<Rightarrow> (Return r, s')) \<and>
      AllDBsContext c sets s =
        (case drv_AllDBsContext d (last_write_wins sets) s of (r, s') \<Rightarrow> (Return r, s')) \<and>
      DBExistsContext c dbName sets s =
        (case drv_DBExistsContext d dbName (last_write_wins sets) s of (r, s') \<Rightarrow> (Return r, s')) \<and>
      DestroyDBContext c dbName sets s =
        (case drv_DestroyDBContext d dbName (last_write_wins sets) s of (r, s') \<Rightarrow> (Return r, s')) \<and>
      DBContext c dbName sets s =
        (case drv_DBContext d dbName (last_write_wins sets) s of
           ((db, err), s') \<Rightarrow> (Return (Some \<lparr>driverDB = db\<rparr>, err), s')) \<and>
      (validDBName dbName \<longrightarrow>
         CreateDBContext c dbName sets s =
           (case drv_CreateDBContext d dbName (last_write_wins sets) s of
              (r, s') \<Rightarrow> (Return r, s'))))"
  by (simp add: mergeOptions_eq ServerInfoContext_def AllDBsContext_def DBExistsContext_def
      DestroyDBContext_def DBContext_def CreateDBContext_def invoke_def split: prod.splits)

theorem mergeOptions_last_write_wins_witness:
  "driverClient stub_client = Some stub_backend \<and>
   validDBName ''beta'' \<and>
   fst (mergeOptions [[''vendor'' \<mapsto> VString ''a'', ''n'' \<mapsto> VInt 1], [''vendor'' \<mapsto> VString ''b'']]) ''vendor''
     = Some (VString ''b'') \<and>
   fst (mergeOptions [[''vendor'' \<mapsto> VString ''a'', ''n'' \<mapsto> VInt 1], [''vendor'' \<mapsto> VString ''b'']]) ''n''
     = Some (VInt 1) \<and>
   ServerInfoContext stub_client
       [[''vendor'' \<mapsto> VString ''a'', ''n'' \<mapsto> VInt 1], [''vendor'' \<mapsto> VString ''b'']] [''alpha'']
     = (Return (Some ''b'', None), [''alpha'']) \<and>
   CreateDBContext stub_client ''beta''
       [[''vendor'' \<mapsto> VString ''a'', ''n'' \<mapsto> VInt 1], [''vendor'' \<mapsto> VString ''b'']] [''alpha'']
     = (Return None, [''alpha'', ''beta''])"
  using mergeOptions_last_write_wins
    [of "[[''vendor'' \<mapsto> VString ''a'', ''n'' \<mapsto> VInt 1], [''vendor'' \<mapsto> VString ''b'']]"
        stub_client stub_backend "[''alpha'']" "''beta''"]
  by (simp add: stub_client_def stub_backend_def last_write_wins_def lower_letter_def
      dbname_char_def)

text \<open>
  Claim C4.  When the driver registry has no entry for the requested name,
  \<^verbatim>\<open>NewContext\<close> (and so \<^verbatim>\<open>New\<close>) returns no client handle and the error whose message is
  \<^verbatim>\<open>kivik: unknown driver\<close>, the requested name as \<^verbatim>\<open>%q\<close> prints it, and
  \<^verbatim>\<open>(forgotten import?)\<close>; no driver is called, so the state is the one it was.
\<close>

theorem NewContext_unknown_driver:
  "drivers name = None \<Longrightarrow>
   NewContext quote drivers name dataSourceName s =
     ((None, Some (Errorf (''kivik: unknown driver '' @ quote name @ '' (forgotten import?)''))), s) \<and>
   New quote drivers name dataSourceName s =
     ((None, Some (Errorf (''kivik: unknown driver '' @ quote name @ '' (forgotten import?)''))), s)"
  by (simp add: New_def NewContext_def)

theorem NewContext_unknown_driver_witness:
  "stub_drivers ''couch'' = None \<and>
   NewContext plain_quote stub_drivers ''couch'' ''http://localhost:5984/'' [] =
     ((None, Some (Errorf (''kivik: unknown driver '' @ [CHR 0x22] @ ''couch'' @ [CHR 0x22] @
                           '' (forgotten import?)''))), []) \<and>
   New plain_quote stub_drivers ''couch'' ''http://localhost:5984/'' [] =
     ((None, Some (Errorf (''kivik: unknown driver '' @ [CHR 0x22] @ ''couch'' @ [CHR 0x22] @
                           '' (forgotten import?)''))), [])"
proof -
  have absent: "stub_drivers ''couch'' = None"
    by (simp add: stub_drivers_def)
  from NewContext_unknown_driver
    [where drivers = stub_drivers and name = "''couch''" and quote = plain_quote
       and dataSourceName = "''http://localhost:5984/''" and s = "[]", OF absent] absent
  show ?thesis by (simp add: plain_quote_def)
qed

text \<open>
  Claim C5, as amended.  For a backend that does not implement the optional interface,
  \<^verbatim>\<open>MembershipContext\<close> and \<^verbatim>\<open>AuthenticateContext\<close> return \<^verbatim>\<open>ErrNotImplemented\<close>, and
  so does \<^verbatim>\<open>UUIDsContext\<close> when the count is not negative; none of them panics and none
  touches the backend's state.
\<close>

theorem missing_capability_NotImplemented:
  "driverClient c = Some d \<Longrightarrow>
   (drv_UUIDer d = None \<and> 0 \<le> count' \<longrightarrow>
      UUIDsContext c count' s = (Return (None, Some ErrNotImplemented), s)) \<and>
   (drv_Cluster d = None \<longrightarrow>
      MembershipContext c s = (Return (None, None, Some ErrNotImplemented), s)) \<and>
   (drv_Authenticator d = None \<longrightarrow>
      AuthenticateContext c a s = (Return (Some ErrNotImplemented), s))"
  by (simp add: UUIDsContext_def MembershipContext_def AuthenticateContext_def assert_iface_def)

theorem missing_capability_NotImplemented_witness:
  "driverClient stub_client = Some stub_backend \<and>
   drv_UUIDer stub_backend = None \<and> (0::int) \<le> 3 \<and>
   drv_Cluster stub_backend = None \<and>
   drv_Authenticator stub_backend = None \<and>
   UUIDsContext stub_client 3 [''alpha''] = (Return (None, Some ErrNotImplemented), [''alpha'']) \<and>
   MembershipContext stub_client [''alpha''] =
     (Return (None, None, Some ErrNotImplemented), [''alpha'']) \<and>
   AuthenticateContext stub_client () [''alpha''] = (Return (Some ErrNotImplemented), [''alpha''])"
proof -
  have dc: "driverClient stub_client = Some stub_backend"
    by (simp add: stub_client_def)
  from missing_capability_NotImplemented [OF dc, of 3 "[''alpha'']" "()"] dc
  show ?thesis by (simp add: stub_backend_def)
qed

text \<open>
  The claim as first stated fails for \<^verbatim>\<open>UUIDsContext\<close>: the count is checked before the
  capability, so on a backend without a UUID generator a negative count is answered with
  the status 400 error and not with \<^verbatim>\<open>ErrNotImplemented\<close>.
\<close>

theorem UUIDsContext_negative_count_counterexample:
  "driverClient stub_client = Some stub_backend \<and>
   drv_UUIDer stub_backend = None \<and>
   UUIDsContext stub_client (- 1) [] =
     (Return (None, Some (Status 400 ''count must be a positive integer'')), []) \<and>
   UUIDsContext stub_client (- 1) [] \<noteq> (Return (None, Some ErrNotImplemented), [])"
  by (simp add: UUIDsContext_def stub_client_def stub_backend_def StatusBadRequest_def)

text \<open>
  Claim C6.  For a database name that does not match \<^verbatim>\<open>^[a-z][a-z0-9_$()+/-]*$\<close>,
  \<^verbatim>\<open>CreateDBContext\<close> returns the status 400 error \<^verbatim>\<open>invalid database name\<close>.  This holds
  for every client, whatever its backend's create method would do, and the backend's
  state is returned as it was: the method is not called.
\<close>

theorem CreateDBContext_invalid_name:
  "\<not> validDBName dbName \<Longrightarrow>
   CreateDBContext c dbName options s =
     (Return (Some (Status 400 ''invalid database name'')), s)"
  by (simp add: CreateDBContext_def mergeOptions_eq StatusBadRequest_def)

theorem CreateDBContext_invalid_name_witness:
  "\<not> validDBName ''Alpha'' \<and> \<not> validDBName [] \<and> \<not> validDBName ''a b'' \<and>
   CreateDBContext stub_client ''Alpha'' [] [''alpha''] =
     (Return (Some (Status 400 ''invalid database name'')), [''alpha'']) \<and>
   CreateDBContext stub_client ''a b'' [[''n'' \<mapsto> VInt 1]] [] =
     (Return (Some (Status 400 ''invalid database name'')), [])"
proof -
  have bad1: "\<not> validDBName ''Alpha''"
    by (simp add: lower_letter_def)
  have bad2: "\<not> validDBName ''a b''"
    by (simp add: lower_letter_def dbname_char_def)
  from CreateDBContext_invalid_name [OF bad1, of stub_client "[]" "[''alpha'']"]
    CreateDBContext_invalid_name [OF bad2, of stub_client "[[''n'' \<mapsto> VInt 1]]" "[]"]
    bad1 bad2
  show ?thesis by simp
qed

text \<open>
  Claim C9.  \<^verbatim>\<open>UUIDsContext\<close> rejects exactly the negative counts at its own check: a
  negative count gives the status 400 error \<^verbatim>\<open>count must be a positive integer\<close> without
  a call of the backend, and every other count, 0 among them, is handed to the
  backend's UUID generator, whose result is returned.
\<close>

theorem UUIDsContext_count_check:
  "(count' < 0 \<longrightarrow>
      UUIDsContext c count' s =
        (Return (None, Some (Status 400 ''count must be a positive integer'')), s)) \<and>
   (driverClient c = Some d \<and> drv_UUIDer d = Some uuider \<longrightarrow>
      UUIDsContext c 0 s = (case uuider 0 s of (r, s') \<Rightarrow> (Return r, s')) \<and>
      (0 \<le> count' \<longrightarrow>
         UUIDsContext c count' s = (case uuider count' s of (r, s') \<Rightarrow> (Return r, s'))))"
  by (simp add: UUIDsContext_def assert_iface_def StatusBadRequest_def)

theorem UUIDsContext_count_check_witness:
  "driverClient uuid_client = Some (stub_backend\<lparr>drv_UUIDer := Some stub_uuider\<rparr>) \<and>
   UUIDsContext uuid_client (- 2) [] =
     (Return (None, Some (Status 400 ''count must be a positive integer'')), []) \<and>
   UUIDsContext uuid_client 0 [] = (Return (Some [], None), [])"
  using UUIDsContext_count_check
    [of "- 2" uuid_client "[]" "stub_backend\<lparr>drv_UUIDer := Some stub_uuider\<rparr>" stub_uuider]
  by (simp add: uuid_client_def stub_uuider_def)

text \<open>
  Claim C10.  \<^verbatim>\<open>DBContext\<close> returns a \<^verbatim>\<open>*DB\<close> wrapper that is not nil whatever the
  backend's \<^verbatim>\<open>DBContext\<close> returns: the wrapper holds the backend's handle, nil or not,
  and the backend's error is returned beside it.
\<close>

theorem DBContext_always_wraps:
  "driverClient c = Some d \<Longrightarrow>
   drv_DBContext d dbName (fst (mergeOptions options)) s = ((db, err), s') \<Longrightarrow>
   DBContext c dbName options s = (Return (Some \<lparr>driverDB = db\<rparr>, err), s')"
  by (simp add: DBContext_def mergeOptions_eq invoke_def)

theorem DBContext_always_wraps_witness:
  "driverClient stub_client = Some stub_backend \<and>
   drv_DBContext stub_backend ''beta'' (fst (mergeOptions [])) [''alpha''] =
     ((None, Some ErrNotFound), [''alpha'']) \<and>
   DBContext stub_client ''beta'' [] [''alpha''] =
     (Return (Some \<lparr>driverDB = None\<rparr>, Some ErrNotFound), [''alpha''])"
proof -
  have dc: "driverClient stub_client = Some stub_backend"
    by (simp add: stub_client_def)
  have call: "drv_DBContext stub_backend ''beta'' (fst (mergeOptions [])) [''alpha''] =
     ((None, Some ErrNotFound), [''alpha''])"
    by (simp add: stub_backend_def)
  from DBContext_always_wraps [OF dc call] dc call show ?thesis by simp
qed

section \<open>Properties of the PouchDB driver\<close>

text \<open>
  Claim C7, as amended.  A remote client whose existence check finds the database
  answers \<^verbatim>\<open>CreateDBContext\<close> with the status 412 error \<^verbatim>\<open>database exists\<close> and does not
  go on to create it: the state is the one the check left.  A local client makes no
  existence check; it merges the options and opens the database, and returns what
  PouchDB returns.
\<close>

theorem pouchdb_CreateDBContext_exists:
  "(isRemote c \<and> pouchdb_DBExistsContext url_String c dbName options s = ((True, e), s') \<longrightarrow>
      pouchdb_CreateDBContext url_String c dbName options s =
        (Some (Status 412 ''database exists''), s')) \<and>
   (\<not> isRemote c \<longrightarrow>
      pouchdb_CreateDBContext url_String c dbName options s =
        (case pouch_options c [options] of
           (_, Some err) \<Rightarrow> (Some err, s)
         | (opts, None) \<Rightarrow> pouch_Info (pouch c) (dbURL url_String c dbName) opts s))"
  by (simp add: pouchdb_CreateDBContext_def pouchdb_create_def StatusPreconditionFailed_def)

theorem pouchdb_CreateDBContext_exists_witness:
  "isRemote remote_client \<and>
   pouchdb_DBExistsContext plain_url_String remote_client ''alpha'' Map.empty
       [''http://db.example/alpha''] = ((True, None), [''http://db.example/alpha'']) \<and>
   pouchdb_CreateDBContext plain_url_String remote_client ''alpha'' Map.empty
       [''http://db.example/alpha''] =
     (Some (Status 412 ''database exists''), [''http://db.example/alpha'']) \<and>
   \<not> isRemote local_client \<and>
   pouchdb_CreateDBContext plain_url_String local_client ''beta'' Map.empty [''alpha''] =
     (None, [''alpha'', ''beta''])"
proof -
  have remote: "isRemote remote_client"
    by (simp add: isRemote_def remote_client_def)
  have found: "pouchdb_DBExistsContext plain_url_String remote_client ''alpha'' Map.empty
       [''http://db.example/alpha''] = ((True, None), [''http://db.example/alpha''])"
    by (simp add: pouchdb_DBExistsContext_def pouch_options_def MergeWithOverwrite_def
        remote_client_def stub_pouch_def dbURL_def plain_url_String_def)
  have loc: "\<not> isRemote local_client"
    by (simp add: isRemote_def local_client_def)
  from pouchdb_CreateDBContext_exists
    [of remote_client plain_url_String "''alpha''" Map.empty "[''http://db.example/alpha'']"
        None "[''http://db.example/alpha'']"]
    pouchdb_CreateDBContext_exists
    [of local_client plain_url_String "''beta''" Map.empty "[''alpha'']"]
    remote found loc
  show ?thesis
    by (simp add: pouch_options_def MergeWithOverwrite_def local_client_def stub_pouch_def
        dbURL_def)
qed

text \<open>
  The claim as first stated fails on a local client: the database \<^verbatim>\<open>alpha\<close> exists
  (the driver's own existence check says so), and creating it again succeeds.
\<close>

theorem pouchdb_CreateDBContext_local_counterexample:
  "pouchdb_DBExistsContext plain_url_String local_client ''alpha'' Map.empty [''alpha''] =
     ((True, None), [''alpha'']) \<and>
   pouchdb_CreateDBContext plain_url_String local_client ''alpha'' Map.empty [''alpha''] =
     (None, [''alpha'']) \<and>
   fst (pouchdb_CreateDBContext plain_url_String local_client ''alpha'' Map.empty [''alpha''])
     \<noteq> Some (Status 412 ''database exists'')"
  by (simp add: pouchdb_CreateDBContext_def pouchdb_create_def pouchdb_DBExistsContext_def
      pouch_options_def MergeWithOverwrite_def isRemote_def local_client_def stub_pouch_def
      dbURL_def)

section \<open>Properties of HTTP Basic authentication\<close>

text \<open>
  Claim C8.  A request without a credential header, and more generally a request from
  which \<^verbatim>\<open>BasicAuth\<close> gets no credentials, is answered with \<^verbatim>\<open>ErrUnauthorized\<close> and no
  user context, without a call of the user store.  When the request carries
  credentials, the answer is whatever the store's \<^verbatim>\<open>Validate\<close> returns for them.
\<close>

theorem Authenticate_basic:
  "(Authorization r = [] \<longrightarrow>
      Authenticate parseBasicAuth GetService r = (None, Some ErrUnauthorized)) \<and>
   (BasicAuth parseBasicAuth r = None \<longrightarrow>
      Authenticate parseBasicAuth GetService r = (None, Some ErrUnauthorized)) \<and>
   (BasicAuth parseBasicAuth r = Some (username, password) \<longrightarrow>
      Authenticate parseBasicAuth GetService r = Validate (GetService r) username password)"
  by (simp add: Authenticate_def BasicAuth_def)

theorem Authenticate_basic_witness:
  "Authorization \<lparr>Authorization = []\<rparr> = [] \<and>
   Authenticate stub_parse (\<lambda>r. stub_store) \<lparr>Authorization = []\<rparr> = (None, Some ErrUnauthorized) \<and>
   BasicAuth stub_parse \<lparr>Authorization = ''admin:secret''\<rparr> = Some (''admin'', ''secret'') \<and>
   Authenticate stub_parse (\<lambda>r. stub_store) \<lparr>Authorization = ''admin:secret''\<rparr> =
     (Some ''admin'', None) \<and>
   BasicAuth stub_parse \<lparr>Authorization = ''admin''\<rparr> = None \<and>
   Authenticate stub_parse (\<lambda>r. stub_store) \<lparr>Authorization = ''admin''\<rparr> =
     (None, Some ErrUnauthorized)"
proof -
  have creds: "BasicAuth stub_parse \<lparr>Authorization = ''admin:secret''\<rparr> = Some (''admin'', ''secret'')"
    by (simp add: BasicAuth_def stub_parse_def)
  have none: "BasicAuth stub_parse \<lparr>Authorization = ''admin''\<rparr> = None"
    by (simp add: BasicAuth_def stub_parse_def)
  from Authenticate_basic [of "\<lparr>Authorization = []\<rparr>" stub_parse "\<lambda>r. stub_store"]
    Authenticate_basic
      [of "\<lparr>Authorization = ''admin:secret''\<rparr>" stub_parse "\<lambda>r. stub_store" "''admin''" "''secret''"]
    Authenticate_basic [of "\<lparr>Authorization = ''admin''\<rparr>" stub_parse "\<lambda>r. stub_store"]
    creds none
  show ?thesis by (simp add: stub_store_def)
qed

section \<open>Properties of the revision trees\<close>

lemma set_apply_edit: "set (apply_edit h t e) = insert (edit_node h e) (set t)"
  by (auto simp: apply_edit_def)

lemma set_apply_edits: "set (apply_edits h t es) = set t \<union> edit_node h ` set es"
  unfolding apply_edits_def
  by (induction es arbitrary: t) (auto simp: set_apply_edit)

lemma set_leaves:
  "set (leaves t) =
     {node_rev n | n. n \<in> set t \<and> (\<forall>m \<in> set t. node_parent m \<noteq> Some (node_rev n))}"
  by (auto simp: leaves_def is_leaf_def list_all_iff)

lemma set_leaves_cong: "set t = set t' \<Longrightarrow> set (leaves t) = set (leaves t')"
  by (simp add: set_leaves)

text \<open>
  \<open>wins\<close> is a strict linear order on revision ids: two revisions of one generation with
  the same serialization have the same hash, since the serializations share the prefix
  that the generation gives.
\<close>

lemma wins_trans: "wins a b \<Longrightarrow> wins b c \<Longrightarrow> wins a c"
  by (auto simp: wins_def)

lemma wins_asym: "wins a b \<Longrightarrow> \<not> wins b a"
  by (auto simp: wins_def)

lemma wins_total: "a \<noteq> b \<Longrightarrow> wins a b \<or> wins b a"
proof -
  assume ne: "a \<noteq> b"
  show ?thesis
  proof (cases "generation a = generation b")
    case True
    with ne have "hash a \<noteq> hash b" by (cases a, cases b) auto
    with True have "rev_string a \<noteq> rev_string b" by (simp add: rev_string_def)
    with True show ?thesis by (auto simp: wins_def)
  next
    case False
    then show ?thesis by (auto simp: wins_def)
  qed
qed

text \<open>The loop of \<open>winner\<close> ends with an element of the list that beats every other one.\<close>

lemma pick_max:
  "foldl (\<lambda>w x. if wins x w then x else w) r rs \<in> set (r # rs) \<and>
   (\<forall>x \<in> set (r # rs). x = foldl (\<lambda>w x. if wins x w then x else w) r rs
        \<or> wins (foldl (\<lambda>w x. if wins x w then x else w) r rs) x)"
proof (induction rs arbitrary: r)
  case Nil
  then show ?case by simp
next
  case (Cons y ys)
  let ?f = "\<lambda>w x. if wins x w then x else w"
  show ?case
  proof (cases "wins y r")
    case True
    from Cons.IH [of y] have in_set: "foldl ?f y ys \<in> set (y # ys)"
      and mx: "\<forall>x \<in> set (y # ys). x = foldl ?f y ys \<or> wins (foldl ?f y ys) x" by auto
    from mx have "y = foldl ?f y ys \<or> wins (foldl ?f y ys) y" by simp
    with True have "wins (foldl ?f y ys) r" by (auto intro: wins_trans)
    with in_set mx True show ?thesis by auto
  next
    case False
    from Cons.IH [of r] have in_set: "foldl ?f r ys \<in> set (r # ys)"
      and mx: "\<forall>x \<in> set (r # ys). x = foldl ?f r ys \<or> wins (foldl ?f r ys) x" by auto
    from False have ry: "y = r \<or> wins r y" using wins_total by blast
    from mx have "r = foldl ?f r ys \<or> wins (foldl ?f r ys) r" by simp
    with ry have "y = foldl ?f r ys \<or> wins (foldl ?f r ys) y" by (auto intro: wins_trans)
    with in_set mx False show ?thesis by auto
  qed
qed

lemma winner_iff:
  "winner t = Some w \<longleftrightarrow>
     w \<in> set (leaves t) \<and> (\<forall>x \<in> set (leaves t). x = w \<or> wins w x)"
proof (cases "leaves t")
  case Nil
  then show ?thesis by (simp add: winner_def)
next
  case (Cons r rs)
  let ?W = "foldl (\<lambda>w x. if wins x w then x else w) r rs"
  have W: "winner t = Some ?W" by (simp add: winner_def Cons)
  have mx: "?W \<in> set (leaves t)" "\<forall>x \<in> set (leaves t). x = ?W \<or> wins ?W x"
    using pick_max [of r rs] by (simp_all add: Cons)
  show ?thesis
  proof
    assume "winner t = Some w"
    with W have "w = ?W" by simp
    with mx show "w \<in> set (leaves t) \<and> (\<forall>x \<in> set (leaves t). x = w \<or> wins w x)" by simp
  next
    assume a: "w \<in> set (leaves t) \<and> (\<forall>x \<in> set (leaves t). x = w \<or> wins w x)"
    with mx have "w = ?W \<or> wins ?W w" "?W = w \<or> wins w ?W" by auto
    then have "w = ?W" using wins_asym by blast
    with W show "winner t = Some w" by simp
  qed
qed

lemma winner_None: "winner t = None \<longleftrightarrow> leaves t = []"
  by (simp add: winner_def split: list.splits)

lemma winner_cong: "set t = set t' \<Longrightarrow> winner t = winner t'"
proof -
  assume "set t = set t'"
  then have l: "set (leaves t) = set (leaves t')" by (rule set_leaves_cong)
  show ?thesis
  proof (cases "winner t")
    case None
    then have "leaves t = []" by (simp add: winner_None)
    with l have "leaves t' = []" by simp
    then have "winner t' = None" by (simp add: winner_None)
    with None show ?thesis by simp
  next
    case (Some w)
    then have "winner t' = Some w" using l by (simp add: winner_iff)
    with Some show ?thesis by simp
  qed
qed

lemma winner_greatest:
  "case winner t of
     None \<Rightarrow> leaves t = []
   | Some w \<Rightarrow>
       w \<in> set (leaves t) \<and>
       (\<forall>l \<in> set (leaves t).
          generation l \<le> generation w \<and>
          (generation l = generation w \<longrightarrow> rev_string l \<le> rev_string w))"
proof (cases "winner t")
  case None
  then have "leaves t = []" by (simp add: winner_None)
  with None show ?thesis by simp
next
  case (Some w)
  then have "w \<in> set (leaves t)" "\<forall>x \<in> set (leaves t). x = w \<or> wins w x"
    by (simp_all add: winner_iff)
  then show ?thesis using Some by (auto simp: wins_def)
qed

text \<open>
  Claim C1.  Applying the same edits to a document's revision tree in any order gives
  the same winning revision id.  The winner is a leaf revision of greatest generation,
  and among the leaves of that generation the one whose serialized revision id is the
  greatest string; a tree has no winner only when it has no leaf.
\<close>

theorem winner_order_independent:
  assumes "mset es' = mset es"
  shows "winner (apply_edits h t es') = winner (apply_edits h t es) \<and>
         (case winner (apply_edits h t es) of
            None \<Rightarrow> leaves (apply_edits h t es) = []
          | Some w \<Rightarrow>
              w \<in> set (leaves (apply_edits h t es)) \<and>
              (\<forall>l \<in> set (leaves (apply_edits h t es)).
                 generation l \<le> generation w \<and>
                 (generation l = generation w \<longrightarrow> rev_string l \<le> rev_string w)))"
proof -
  from assms have "set es' = set es" by (metis set_mset_mset)
  then have "set (apply_edits h t es') = set (apply_edits h t es)"
    by (simp add: set_apply_edits)
  then have "winner (apply_edits h t es') = winner (apply_edits h t es)"
    by (rule winner_cong)
  with winner_greatest [of "apply_edits h t es"] show ?thesis by simp
qed

theorem winner_order_independent_witness:
  "mset [(Some \<lparr>generation = 1, hash = ''r''\<rparr>, Some ''y''), (None, Some ''r''),
         (Some \<lparr>generation = 1, hash = ''r''\<rparr>, Some ''x'')] =
   mset [(None, Some ''r''), (Some \<lparr>generation = 1, hash = ''r''\<rparr>, Some ''x''),
         (Some \<lparr>generation = 1, hash = ''r''\<rparr>, Some ''y'')] \<and>
   winner (apply_edits demo_hash []
        [(Some \<lparr>generation = 1, hash = ''r''\<rparr>, Some ''y''), (None, Some ''r''),
         (Some \<lparr>generation = 1, hash = ''r''\<rparr>, Some ''x'')]) =
     Some \<lparr>generation = 2, hash = ''ry''\<rparr> \<and>
   winner (apply_edits demo_hash []
        [(None, Some ''r''), (Some \<lparr>generation = 1, hash = ''r''\<rparr>, Some ''x''),
         (Some \<lparr>generation = 1, hash = ''r''\<rparr>, Some ''y'')]) =
     Some \<lparr>generation = 2, hash = ''ry''\<rparr>"
proof -
  let ?es' = "[(Some \<lparr>generation = 1, hash = ''r''\<rparr>, Some ''y''), (None, Some ''r''),
         (Some \<lparr>generation = 1, hash = ''r''\<rparr>, Some ''x'')]"
  let ?es = "[(None, Some ''r''), (Some \<lparr>generation = 1, hash = ''r''\<rparr>, Some ''x''),
         (Some \<lparr>generation = 1, hash = ''r''\<rparr>, Some ''y'')]"
  have perm: "mset ?es' = mset ?es" by simp
  have w: "winner (apply_edits demo_hash [] ?es) = Some \<lparr>generation = 2, hash = ''ry''\<rparr>"
    by code_simp
  from winner_order_independent [OF perm, of demo_hash "[]"] perm w
  show ?thesis by simp
qed

section \<open>Properties of the writes\<close>

text \<open>
  Claim C2.  A \<^verbatim>\<open>Put\<close> whose expected parent revision is neither empty for a document
  that does not exist yet, nor the serialized winning revision of a document that
  exists, fails with \<open>Conflict\<close> and returns the database as it was; in particular the
  document's revision tree and the change log are unchanged.
\<close>

theorem Put_stale_parent_Conflict:
  assumes "\<not> (docs db docID = None \<and> expectedParentRevision = [])"
    and "\<not> (\<exists>t w. docs db docID = Some t \<and> winner t = Some w \<and>
               expectedParentRevision = rev_string w)"
  shows "Put h db docID body expectedParentRevision = (Inl Conflict, db) \<and>
         docs (snd (Put h db docID body expectedParentRevision)) docID = docs db docID \<and>
         change_log (snd (Put h db docID body expectedParentRevision)) = change_log db"
proof -
  have "write_doc h db docID (Some body) expectedParentRevision = (Inl Conflict, db)"
  proof (cases "docs db docID")
    case None
    with assms(1) show ?thesis by (simp add: write_doc_def)
  next
    case (Some t)
    with assms(2) show ?thesis by (simp add: write_doc_def split: option.splits)
  qed
  then show ?thesis by (simp add: Put_def)
qed

lemma demo_db_doc1:
  "docs demo_db ''doc1'' =
     Some [\<lparr>node_rev = \<lparr>generation = 1, hash = ''a1''\<rparr>, node_parent = None,
            node_body = Some ''a1''\<rparr>]"
  by (simp add: demo_db_def Put_def write_doc_def commit_def empty_db_def apply_edit_def
      edit_node_def new_rev_def demo_hash_def Let_def)

lemma demo_db_winner:
  "winner [\<lparr>node_rev = \<lparr>generation = 1, hash = ''a1''\<rparr>, node_parent = None,
            node_body = Some ''a1''\<rparr>] = Some \<lparr>generation = 1, hash = ''a1''\<rparr>"
  by code_simp

lemma demo_db_rev_string: "rev_string \<lparr>generation = 1, hash = ''a1''\<rparr> = ''1-a1''"
  by code_simp

theorem Put_stale_parent_Conflict_witness:
  "fst (Put demo_hash empty_db ''doc1'' ''a1'' []) = Inr \<lparr>generation = 1, hash = ''a1''\<rparr> \<and>
   Put demo_hash demo_db ''doc1'' ''a2'' [] = (Inl Conflict, demo_db) \<and>
   Put demo_hash demo_db ''doc1'' ''a2'' ''1-b1'' = (Inl Conflict, demo_db) \<and>
   Put demo_hash demo_db ''doc2'' ''a2'' ''1-a1'' = (Inl Conflict, demo_db) \<and>
   fst (Put demo_hash demo_db ''doc1'' ''a2'' ''1-a1'') = Inr \<lparr>generation = 2, hash = ''a1a2''\<rparr>"
proof -
  have first: "fst (Put demo_hash empty_db ''doc1'' ''a1'' []) = Inr \<lparr>generation = 1, hash = ''a1''\<rparr>"
    by (simp add: Put_def write_doc_def commit_def empty_db_def new_rev_def demo_hash_def Let_def)
  have doc2: "docs demo_db ''doc2'' = None"
    by (simp add: demo_db_def Put_def write_doc_def commit_def empty_db_def Let_def)
  have a1: "\<not> (docs demo_db ''doc1'' = None \<and> [] = [])"
    by (simp add: demo_db_doc1)
  have a2: "\<not> (\<exists>t w. docs demo_db ''doc1'' = Some t \<and> winner t = Some w \<and> [] = rev_string w)"
    by (simp add: demo_db_doc1 demo_db_winner demo_db_rev_string del: One_nat_def)
  have b1: "\<not> (docs demo_db ''doc1'' = None \<and> ''1-b1'' = [])"
    by simp
  have b2: "\<not> (\<exists>t w. docs demo_db ''doc1'' = Some t \<and> winner t = Some w \<and>
                ''1-b1'' = rev_string w)"
    by (simp add: demo_db_doc1 demo_db_winner demo_db_rev_string del: One_nat_def)
  have c1: "\<not> (docs demo_db ''doc2'' = None \<and> ''1-a1'' = [])"
    by simp
  have c2: "\<not> (\<exists>t w. docs demo_db ''doc2'' = Some t \<and> winner t = Some w \<and>
                ''1-a1'' = rev_string w)"
    by (simp add: doc2)
  have ok: "fst (Put demo_hash demo_db ''doc1'' ''a2'' ''1-a1'') = Inr \<lparr>generation = 2, hash = ''a1a2''\<rparr>"
    by (simp add: Put_def write_doc_def demo_db_doc1 demo_db_winner demo_db_rev_string
        commit_def new_rev_def demo_hash_def Let_def del: One_nat_def)
  from Put_stale_parent_Conflict [OF a1 a2, of demo_hash "''a2''"]
    Put_stale_parent_Conflict [OF b1 b2, of demo_hash "''a2''"]
    Put_stale_parent_Conflict [OF c1 c2, of demo_hash "''a2''"]
    first ok
  show ?thesis by simp
qed

end
